theory Spec2Isabelle
  imports Complex_Main "HOL-Library.Sublist" "HOL-Library.Multiset"
    "HOL-Library.Product_Lexorder" "HOL-Library.AList"
begin

section \<open>Text as the program sees it\<close>

text \<open>
  A Python \<open>str\<close> is modelled as a \<open>string\<close> whose characters are the code points
  U+0000 to U+00FF (Latin-1), one \<open>char\<close> per code point; this covers every alias of
  \<open>MAPEO_COLUMNAS\<close> (the letter o with acute accent is code point 0xF3). Text with code
  points beyond U+00FF is outside the model.
\<close>

definition py_isspace :: "char \<Rightarrow> bool" where
  \<comment> \<open>the code points below U+0100 that \<open>str.strip()\<close>, \<open>float()\<close> and \<open>Decimal()\<close> trim\<close>
  "py_isspace c \<longleftrightarrow>
     (let n = (of_char c :: nat) in (9 \<le> n \<and> n \<le> 13) \<or> (28 \<le> n \<and> n \<le> 32) \<or> n = 133 \<or> n = 160)"

definition py_strip :: "string \<Rightarrow> string" where
  "py_strip s = rev (dropWhile py_isspace (rev (dropWhile py_isspace s)))"

definition py_lower_chr :: "char \<Rightarrow> char" where
  \<comment> \<open>\<open>str.lower()\<close> on one code point: A-Z, and the Latin-1 capitals 0xC0-0xDE but 0xD7\<close>
  "py_lower_chr c =
     (let n = (of_char c :: nat) in
      if (65 \<le> n \<and> n \<le> 90) \<or> (192 \<le> n \<and> n \<le> 222 \<and> n \<noteq> 215)
      then char_of (n + 32) else c)"

definition py_lower :: "string \<Rightarrow> string" where
  "py_lower s = map py_lower_chr s"

definition py_replace :: "char \<Rightarrow> string \<Rightarrow> string \<Rightarrow> string" where
  \<comment> \<open>\<open>s.replace(c, r)\<close> for a one-character pattern \<open>c\<close>\<close>
  "py_replace c r s = concat (map (\<lambda>x. if x = c then r else [x]) s)"

fun py_split :: "char \<Rightarrow> string \<Rightarrow> string list" where
  \<comment> \<open>\<open>s.split(c)\<close> for a one-character separator: never the empty list\<close>
  "py_split c [] = [[]]"
| "py_split c (x # xs) =
     (if x = c then [] # py_split c xs
      else (case py_split c xs of p # ps \<Rightarrow> (x # p) # ps | [] \<Rightarrow> [[x]]))"

fun py_join :: "string \<Rightarrow> string list \<Rightarrow> string" where
  \<comment> \<open>\<open>sep.join(parts)\<close>\<close>
  "py_join sep [] = []"
| "py_join sep [p] = p"
| "py_join sep (p # q # ps) = p @ sep @ py_join sep (q # ps)"

definition py_in :: "string \<Rightarrow> string \<Rightarrow> bool" where
  \<comment> \<open>\<open>a in s\<close> on strings: \<open>a\<close> occurs as a contiguous substring of \<open>s\<close>\<close>
  "py_in a s \<longleftrightarrow> sublist a s"

definition is_digit :: "char \<Rightarrow> bool" where
  "is_digit c \<longleftrightarrow> (let n = (of_char c :: nat) in 48 \<le> n \<and> n \<le> 57)"

definition digit_val :: "char \<Rightarrow> int" where
  "digit_val c = of_char c - 48"

definition int_of_digits :: "string \<Rightarrow> int" where
  \<comment> \<open>the number a string of decimal digits writes\<close>
  "int_of_digits ds = foldl (\<lambda>a c. 10 * a + digit_val c) 0 ds"

section \<open>Decimal values\<close>

text \<open>
  \<open>decimal.Decimal\<close>: a finite value is a sign, a coefficient (never negative) and an
  exponent, the number \<open>(-1)^sign * coefficient * 10^exponent\<close>; the special values are
  the infinities and the quiet and signalling NaN. The diagnostic digits of a NaN are not
  kept: nothing in the program reads them.
\<close>

datatype decimal = Fin bool int int | Inf bool | NaN bool | SNaN bool

datatype error = InvalidOperation | Overflow | OverflowError | ValueError | IndexError

definition dec_sint :: "bool \<Rightarrow> int \<Rightarrow> int" where
  "dec_sint sg c = (if sg then - c else c)"

fun dec_val :: "decimal \<Rightarrow> rat" where
  \<comment> \<open>the number a finite Decimal denotes (0 for the special values, which denote none)\<close>
  "dec_val (Fin sg c e) = of_int (dec_sint sg c) * (if 0 \<le> e then 10 ^ nat e else 1 / 10 ^ nat (- e))"
| "dec_val _ = 0"

definition parse_exp :: "string \<Rightarrow> int option" where
  \<comment> \<open>the exponent part \<open>(E[-+]?\d+)?\<close> that must reach the end of the string\<close>
  "parse_exp r =
     (case r of
        [] \<Rightarrow> Some 0
      | x # r1 \<Rightarrow>
          if x \<noteq> CHR ''e'' then None
          else (let (neg, ds) = (case r1 of
                                   y # r2 \<Rightarrow> if y = CHR ''-'' then (True, r2)
                                             else if y = CHR ''+'' then (False, r2)
                                             else (False, r1)
                                 | [] \<Rightarrow> (False, r1))
                in if ds \<noteq> [] \<and> list_all is_digit ds
                   then Some (if neg then - int_of_digits ds else int_of_digits ds)
                   else None))"

definition parse_number :: "bool \<Rightarrow> string \<Rightarrow> decimal option" where
  \<comment> \<open>\<open>(?=\d|\.\d)(\d*)(\.(\d*))?(E[-+]?\d+)?\<close>: digits, optional fraction, optional exponent\<close>
  "parse_number sg l =
     (let intpart = takeWhile is_digit l;
          r1 = dropWhile is_digit l;
          (frac, r2) = (case r1 of
                          x # r \<Rightarrow> if x = CHR ''.'' then (takeWhile is_digit r, dropWhile is_digit r)
                                    else ([], r1)
                        | [] \<Rightarrow> ([], r1))
      in if intpart = [] \<and> frac = [] then None
         else (case parse_exp r2 of
                 None \<Rightarrow> None
               | Some ex \<Rightarrow> Some (Fin sg (int_of_digits (intpart @ frac)) (ex - int (length frac)))))"

definition Decimal :: "string \<Rightarrow> decimal option" where
  \<comment> \<open>\<open>Decimal(s)\<close> for a string: \<open>None\<close> stands for the \<open>InvalidOperation\<close> it raises.
      Surrounding whitespace is trimmed, underscores are dropped, letters are matched
      without regard to case; the construction is exact (no rounding to the context).
      The exponent is not bounded here (CPython's C implementation rejects exponents
      of magnitude about 10^18 and above).\<close>
  "Decimal s =
     (let t = filter (\<lambda>c. c \<noteq> CHR ''_'') (py_strip s);
          (sg, r) = (case t of
                       x # r \<Rightarrow> if x = CHR ''-'' then (True, r)
                                 else if x = CHR ''+'' then (False, r)
                                 else (False, t)
                     | [] \<Rightarrow> (False, t));
          l = py_lower r
      in if l = ''inf'' \<or> l = ''infinity'' then Some (Inf sg)
         else if take 3 l = ''nan'' \<and> list_all is_digit (drop 3 l) then Some (NaN sg)
         else if take 4 l = ''snan'' \<and> list_all is_digit (drop 4 l) then Some (SNaN sg)
         else parse_number sg l)"

section \<open>normalizar_monto\<close>

definition normalizar_monto :: "string \<Rightarrow> decimal option" where
  \<comment> \<open>\<open>None\<close> is the function's own \<open>None\<close>: the parse error is caught inside\<close>
  "normalizar_monto monto_str =
     (let monto_str_normalizado = py_replace CHR '','' ''.'' (py_replace CHR ''.'' '''' monto_str);
          partes = py_split CHR ''.'' monto_str_normalizado;
          monto_str_normalizado =
            (if length partes > 2 then py_join '''' (butlast partes) @ ''.'' @ last partes
             else monto_str_normalizado)
      in Decimal monto_str_normalizado)"


section \<open>Decimal arithmetic in the default context\<close>

text \<open>
  The program never changes the decimal context, so every addition rounds to the default
  one: precision 28, rounding half-even, exponents between -999999 and 999999, traps for
  \<open>InvalidOperation\<close> and \<open>Overflow\<close> (a trapped signal is a raised exception).
\<close>

definition prec :: int where "prec = 28"
definition Emax :: int where "Emax = 999999"
definition Emin :: int where "Emin = - 999999"
definition Etiny :: int where "Etiny = Emin - prec + 1"
definition Etop :: int where "Etop = Emax - prec + 1"

function ndigits :: "int \<Rightarrow> int" where
  \<comment> \<open>\<open>len(str(c))\<close> for a coefficient \<open>c \<ge> 0\<close>\<close>
  "ndigits c = (if c < 10 then 1 else 1 + ndigits (c div 10))"
  by pat_completeness auto
termination
  by (relation "measure nat") auto

declare ndigits.simps [simp del]

definition round_half_even :: "int \<Rightarrow> nat \<Rightarrow> int" where
  \<comment> \<open>drop the last \<open>k\<close> digits of \<open>c\<close>, rounding to nearest, a tie to the even neighbour\<close>
  "round_half_even c k =
     (let q = c div 10 ^ k; r = c mod 10 ^ k
      in if 2 * r > 10 ^ k \<or> (2 * r = 10 ^ k \<and> odd q) then q + 1 else q)"

fun dec_fix :: "decimal \<Rightarrow> error + decimal" where
  \<comment> \<open>rounding of a result to the context (\<open>Decimal._fix\<close>)\<close>
  "dec_fix (Fin sg c e) =
     (if c = 0 then Inr (Fin sg 0 (min (max e Etiny) Emax))
      else
        let exp_min = ndigits c + e - prec in
        if exp_min > Etop then Inl Overflow
        else
          let exp_min = (if exp_min < Etiny then Etiny else exp_min) in
          if e < exp_min then
            (let coeff = round_half_even c (nat (exp_min - e));
                 (coeff, exp_min) = (if ndigits coeff > prec then (coeff div 10, exp_min + 1)
                                     else (coeff, exp_min))
             in if exp_min > Etop then Inl Overflow else Inr (Fin sg coeff exp_min))
          else Inr (Fin sg c e))"
| "dec_fix d = Inr d"

fun dec_add :: "decimal \<Rightarrow> decimal \<Rightarrow> error + decimal" where
  \<comment> \<open>\<open>a + b\<close> on Decimals: the exact sum, at the smaller exponent, rounded to the context;
      a signalling NaN and the sum of opposite infinities raise\<close>
  "dec_add (Fin sa ca ea) (Fin sb cb eb) =
     (let e = min ea eb;
          s = dec_sint sa ca * 10 ^ nat (ea - e) + dec_sint sb cb * 10 ^ nat (eb - e)
      in dec_fix (Fin (if ca = 0 \<and> cb = 0 then sa \<and> sb else s < 0) \<bar>s\<bar> e))"
| "dec_add (SNaN s) b = Inl InvalidOperation"
| "dec_add a (SNaN s) = Inl InvalidOperation"
| "dec_add (NaN s) b = Inr (NaN s)"
| "dec_add a (NaN s) = Inr (NaN s)"
| "dec_add (Inf sa) (Inf sb) = (if sa \<noteq> sb then Inl InvalidOperation else Inr (Inf sa))"
| "dec_add (Inf sa) b = Inr (Inf sa)"
| "dec_add a (Inf sb) = Inr (Inf sb)"

fun dec_eq :: "decimal \<Rightarrow> decimal \<Rightarrow> error + bool" where
  \<comment> \<open>\<open>a == b\<close> on Decimals: by value, never equal to a NaN; a signalling NaN raises\<close>
  "dec_eq (Fin sa ca ea) (Fin sb cb eb) =
     (let e = min ea eb
      in Inr (dec_sint sa ca * 10 ^ nat (ea - e) = dec_sint sb cb * 10 ^ nat (eb - e)))"
| "dec_eq (SNaN s) b = Inl InvalidOperation"
| "dec_eq a (SNaN s) = Inl InvalidOperation"
| "dec_eq (NaN s) b = Inr False"
| "dec_eq a (NaN s) = Inr False"
| "dec_eq (Inf sa) (Inf sb) = Inr (sa = sb)"
| "dec_eq (Inf sa) b = Inr False"
| "dec_eq a (Inf sb) = Inr False"

fun py_sum :: "decimal \<Rightarrow> decimal list \<Rightarrow> error + decimal" where
  \<comment> \<open>the loop of \<open>sum()\<close>: the running total plus the next item, left to right\<close>
  "py_sum acc [] = Inr acc"
| "py_sum acc (d # ds) = (case dec_add acc d of Inl err \<Rightarrow> Inl err | Inr acc' \<Rightarrow> py_sum acc' ds)"

section \<open>int(float(s))\<close>

function bit_len :: "int \<Rightarrow> int" where
  \<comment> \<open>the number of binary digits of \<open>n \<ge> 1\<close>\<close>
  "bit_len n = (if n < 2 then 1 else 1 + bit_len (n div 2))"
  by pat_completeness auto
termination
  by (relation "measure nat") auto

declare bit_len.simps [simp del]

definition scale2 :: "rat \<Rightarrow> int \<Rightarrow> rat" where
  "scale2 a e = (if 0 \<le> e then a * 2 ^ nat e else a / 2 ^ nat (- e))"

definition int_of_double :: "rat \<Rightarrow> error + int" where
  \<comment> \<open>for \<open>a \<ge> 0\<close>: the integer part of the IEEE double nearest to \<open>a\<close> (53-bit significand
      \<open>m\<close> at binary exponent \<open>k\<close>, ties to even); past the largest double the float is
      \<open>inf\<close> and \<open>int()\<close> raises\<close>
  "int_of_double a =
     (if a < 1 / 2 then Inr 0
      else
        let k = bit_len \<lfloor>2 * a\<rfloor> - 2;
            x = scale2 a (52 - k);
            f = \<lfloor>x\<rfloor>;
            m = (if x - of_int f > 1 / 2 \<or> (x - of_int f = 1 / 2 \<and> odd f) then f + 1 else f)
        in if k > 1023 \<or> (k = 1023 \<and> m = 2 ^ 53) then Inl OverflowError
           else Inr (if k \<ge> 52 then m * 2 ^ nat (k - 52) else m div 2 ^ nat (52 - k)))"

definition underscores_ok :: "string \<Rightarrow> bool" where
  \<comment> \<open>in a float literal an underscore stands only between two digits\<close>
  "underscores_ok t \<longleftrightarrow>
     (\<forall>i < length t. t ! i = CHR ''_'' \<longrightarrow>
        0 < i \<and> is_digit (t ! (i - 1)) \<and> Suc i < length t \<and> is_digit (t ! Suc i))"

definition int_float :: "string \<Rightarrow> error + int" where
  \<comment> \<open>\<open>int(float(s))\<close>: \<open>ValueError\<close> for a string that is no float literal and for
      \<open>nan\<close>, \<open>OverflowError\<close> for an infinity, else the double truncated towards zero\<close>
  "int_float s =
     (let t0 = py_strip s;
          t = filter (\<lambda>c. c \<noteq> CHR ''_'') t0;
          (sg, r) = (case t of
                       x # r \<Rightarrow> if x = CHR ''-'' then (True, r)
                                 else if x = CHR ''+'' then (False, r)
                                 else (False, t)
                     | [] \<Rightarrow> (False, t));
          l = py_lower r
      in if \<not> underscores_ok t0 then Inl ValueError
         else if l = ''inf'' \<or> l = ''infinity'' then Inl OverflowError
         else if l = ''nan'' then Inl ValueError
         else (case parse_number sg l of
                 None \<Rightarrow> Inl ValueError
               | Some d \<Rightarrow>
                   (case int_of_double \<bar>dec_val d\<bar> of
                      Inl err \<Rightarrow> Inl err
                    | Inr n \<Rightarrow> Inr (if sg then - n else n))))"

section \<open>reconocer_factura: words and lines\<close>

text \<open>
  The OCR collaborator returns parallel lists (\<open>data['text'][i]\<close>, \<open>data['conf'][i]\<close>, ...);
  they are modelled as one list of rows. \<open>o_conf\<close> is the value of \<open>int(data['conf'][i])\<close>.
\<close>

record ocr_word =
  o_text :: string
  o_conf :: int
  o_left :: int
  o_top :: int
  o_width :: int
  o_height :: int

record palabra =
  p_text :: string
  p_left :: int
  p_top :: int
  p_width :: int
  p_height :: int

fun extraer_palabras :: "ocr_word list \<Rightarrow> palabra list" where
  \<comment> \<open>the loop that fills \<open>palabras\<close>\<close>
  "extraer_palabras [] = []"
| "extraer_palabras (d # ds) =
     (let text = py_strip (o_text d) in
      if text \<noteq> [] \<and> o_conf d > 60
      then \<lparr>p_text = text, p_left = o_left d, p_top = o_top d,
            p_width = o_width d, p_height = o_height d\<rparr> # extraer_palabras ds
      else extraer_palabras ds)"

definition ordenar_palabras :: "palabra list \<Rightarrow> palabra list" where
  \<comment> \<open>\<open>palabras.sort(key=lambda x: (x['top'], x['left']))\<close>: a stable sort\<close>
  "ordenar_palabras palabras = sort_key (\<lambda>x. (p_top x, p_left x)) palabras"

fun agrupar :: "palabra list \<Rightarrow> palabra list \<Rightarrow> palabra list list" where
  \<comment> \<open>the walk over \<open>palabras[1:]\<close> with the open line \<open>linea_actual\<close> (never empty)\<close>
  "agrupar linea_actual [] = [sort_key p_left linea_actual]"
| "agrupar linea_actual (palabra_actual # resto) =
     (let palabra_anterior = last linea_actual in
      if \<bar>p_top palabra_actual - p_top palabra_anterior\<bar> < 20
      then agrupar (linea_actual @ [palabra_actual]) resto
      else sort_key p_left linea_actual # agrupar [palabra_actual] resto)"

definition agrupar_lineas :: "palabra list \<Rightarrow> palabra list list" where
  "agrupar_lineas palabras = (case palabras of [] \<Rightarrow> [] | p # ps \<Rightarrow> agrupar [p] ps)"

definition lineas_de :: "ocr_word list \<Rightarrow> palabra list list" where
  \<comment> \<open>\<open>lineas\<close> as \<open>reconocer_factura\<close> builds it from the OCR data\<close>
  "lineas_de data = agrupar_lineas (ordenar_palabras (extraer_palabras data))"

section \<open>reconocer_factura: columns, total and details\<close>

datatype columna = Cant | Descripcion | P_Unit | Importe

datatype estado = Buscando_columnas | Extrayendo_detalles | Buscando_total

definition MAPEO_COLUMNAS :: "(columna \<times> string list) list" where
  \<comment> \<open>a dict literal: its items in the order written\<close>
  "MAPEO_COLUMNAS =
     [(Cant, [''cant'', ''cantidad'', ''qty'']),
      (Descripcion, [''descripci'' @ [CHR 0xF3] @ ''n'', ''descripcion'', ''producto'',
                     ''servicio'', ''concepto'']),
      (P_Unit, [''p.unit'', ''unitario'', ''precio'', ''p/u'']),
      (Importe, [''importe'', ''total'', ''subtotal'', ''valor''])]"

record detalle =
  d_cant :: int
  d_descripcion :: string
  d_punit :: "decimal option"
  d_importe :: decimal

text \<open>
  \<open>columnas\<close> is a dict, and the order of its keys decides \<open>min\<close> below: it is an
  association list in insertion order. Assigning to a key that is present keeps its
  place, a new key goes to the end (\<open>AList.update\<close>).
\<close>

record reconocimiento =
  detalles :: "detalle list"
  total_factura :: "decimal option"
  columnas :: "(columna \<times> int) list"
  estado :: estado

definition linea_texto_de :: "palabra list \<Rightarrow> string" where
  "linea_texto_de linea = py_lower (py_join '' '' (map p_text linea))"

fun primera_palabra :: "string \<Rightarrow> palabra list \<Rightarrow> palabra option" where
  \<comment> \<open>\<open>for palabra in linea: if alias in palabra['text'].lower(): ...; break\<close>\<close>
  "primera_palabra alias [] = None"
| "primera_palabra alias (palabra # resto) =
     (if py_in alias (py_lower (p_text palabra)) then Some palabra
      else primera_palabra alias resto)"

fun detectar_alias ::
  "columna \<Rightarrow> string \<Rightarrow> palabra list \<Rightarrow> string list \<Rightarrow>
   (columna \<times> int) list \<times> bool \<Rightarrow> (columna \<times> int) list \<times> bool" where
  \<comment> \<open>\<open>for alias in alias_list\<close>, on the pair (\<open>columnas\<close>, \<open>found_cols\<close>)\<close>
  "detectar_alias nombre_col linea_texto linea [] cf = cf"
| "detectar_alias nombre_col linea_texto linea (alias # resto) (cols, found_cols) =
     detectar_alias nombre_col linea_texto linea resto
       (if py_in alias linea_texto
        then (case primera_palabra alias linea of
                Some palabra \<Rightarrow> (AList.update nombre_col (p_left palabra) cols, True)
              | None \<Rightarrow> (cols, found_cols))
        else (cols, found_cols))"

fun detectar_columnas ::
  "string \<Rightarrow> palabra list \<Rightarrow> (columna \<times> string list) list \<Rightarrow>
   (columna \<times> int) list \<times> bool \<Rightarrow> (columna \<times> int) list \<times> bool" where
  \<comment> \<open>\<open>for nombre_col, alias_list in MAPEO_COLUMNAS.items()\<close>\<close>
  "detectar_columnas linea_texto linea [] cf = cf"
| "detectar_columnas linea_texto linea ((nombre_col, alias_list) # resto) cf =
     detectar_columnas linea_texto linea resto
       (detectar_alias nombre_col linea_texto linea alias_list cf)"

fun min_desde :: "'k \<times> int \<Rightarrow> ('k \<times> int) list \<Rightarrow> 'k" where
  \<comment> \<open>the scan of \<open>min\<close>: a later key replaces the best one only when strictly smaller\<close>
  "min_desde (k, v) [] = k"
| "min_desde (k, v) ((k', v') # resto) =
     (if v' < v then min_desde (k', v') resto else min_desde (k, v) resto)"

definition py_min_key :: "('k \<times> int) list \<Rightarrow> error + 'k" where
  \<comment> \<open>\<open>min(d, key=d.get)\<close> over the keys of a dict in their order; raises on an empty one\<close>
  "py_min_key d = (case d of [] \<Rightarrow> Inl ValueError | kv # resto \<Rightarrow> Inr (min_desde kv resto))"

definition distancias :: "(columna \<times> int) list \<Rightarrow> palabra \<Rightarrow> (columna \<times> int) list" where
  "distancias cols palabra =
     map (\<lambda>(nombre_col, pos_col). (nombre_col, \<bar>p_left palabra - pos_col\<bar>)) cols"

definition columna_cercana :: "(columna \<times> int) list \<Rightarrow> palabra \<Rightarrow> error + columna" where
  "columna_cercana cols palabra = py_min_key (distancias cols palabra)"

definition dict_append ::
  "columna \<Rightarrow> string \<Rightarrow> (columna \<times> string list) list \<Rightarrow> (columna \<times> string list) list" where
  \<comment> \<open>\<open>detalle_linea[c].append(t)\<close>; \<open>c\<close> is one of the keys\<close>
  "dict_append c t dl = map (\<lambda>(k, ts). if k = c then (k, ts @ [t]) else (k, ts)) dl"

fun asignar ::
  "(columna \<times> int) list \<Rightarrow> palabra list \<Rightarrow> (columna \<times> string list) list \<Rightarrow>
   error + (columna \<times> string list) list" where
  \<comment> \<open>\<open>for palabra in linea\<close>: each word's text goes to its nearest column\<close>
  "asignar cols [] detalle_linea = Inr detalle_linea"
| "asignar cols (palabra # resto) detalle_linea =
     (case columna_cercana cols palabra of
        Inl err \<Rightarrow> Inl err
      | Inr c \<Rightarrow> asignar cols resto (dict_append c (p_text palabra) detalle_linea))"

definition primero :: "columna \<Rightarrow> (columna \<times> string list) list \<Rightarrow> error + string option" where
  \<comment> \<open>\<open>detalle_linea.get(c, [None])[0]\<close>\<close>
  "primero c detalle_linea =
     (case map_of detalle_linea c of
        None \<Rightarrow> Inr None
      | Some [] \<Rightarrow> Inl IndexError
      | Some (t # ts) \<Rightarrow> Inr (Some t))"

definition truthy :: "string option \<Rightarrow> bool" where
  \<comment> \<open>the truth value of a string or \<open>None\<close>\<close>
  "truthy s \<longleftrightarrow> (case s of None \<Rightarrow> False | Some t \<Rightarrow> t \<noteq> [])"

definition construir_detalle :: "(columna \<times> string list) list \<Rightarrow> error + detalle option" where
  \<comment> \<open>the body of the \<open>try\<close>: \<open>Inl\<close> is the exception raised, \<open>Inr None\<close> no append\<close>
  "construir_detalle detalle_linea =
     (let desc = py_join '' '' (case map_of detalle_linea Descripcion of None \<Rightarrow> [] | Some ts \<Rightarrow> ts) in
      case primero Cant detalle_linea of Inl err \<Rightarrow> Inl err | Inr cant_str \<Rightarrow>
     (case primero P_Unit detalle_linea of Inl err \<Rightarrow> Inl err | Inr punit_str \<Rightarrow>
     (case primero Importe detalle_linea of Inl err \<Rightarrow> Inl err | Inr importe_str \<Rightarrow>
      if truthy importe_str \<and> desc \<noteq> [] then
        (case normalizar_monto (case importe_str of Some t \<Rightarrow> t | None \<Rightarrow> []) of
           None \<Rightarrow> Inr None
         | Some importe \<Rightarrow>
             (case (if truthy cant_str
                    then int_float (py_replace CHR '','' ''.''
                                      (case cant_str of Some t \<Rightarrow> t | None \<Rightarrow> []))
                    else Inr 1) of
                Inl err \<Rightarrow> Inl err
              | Inr cant \<Rightarrow>
                  Inr (Some \<lparr>d_cant = cant, d_descripcion = desc,
                             d_punit = (if truthy punit_str
                                        then normalizar_monto
                                               (case punit_str of Some t \<Rightarrow> t | None \<Rightarrow> [])
                                        else Some importe),
                             d_importe = importe\<rparr>)))
      else Inr None)))"

definition consolidar :: "(columna \<times> string list) list \<Rightarrow> error + detalle option" where
  \<comment> \<open>\<open>try: ... except (ValueError, InvalidOperation, IndexError): pass\<close>\<close>
  "consolidar detalle_linea =
     (case construir_detalle detalle_linea of
        Inl err \<Rightarrow> if err = ValueError \<or> err = InvalidOperation \<or> err = IndexError
                   then Inr None else Inl err
      | Inr r \<Rightarrow> Inr r)"

definition detalle_de_linea :: "(columna \<times> int) list \<Rightarrow> palabra list \<Rightarrow> error + detalle option" where
  "detalle_de_linea cols linea =
     (case asignar cols linea (map (\<lambda>(nombre_col, pos_col). (nombre_col, [])) cols) of
        Inl err \<Rightarrow> Inl err
      | Inr detalle_linea \<Rightarrow> consolidar detalle_linea)"

definition es_encabezado :: "string \<Rightarrow> bool" where
  \<comment> \<open>\<open>any(alias in linea_texto for col_aliases in MAPEO_COLUMNAS.values() for alias in col_aliases)\<close>\<close>
  "es_encabezado linea_texto \<longleftrightarrow>
     list_ex (\<lambda>alias. py_in alias linea_texto) (concat (map snd MAPEO_COLUMNAS))"

definition montos_en_linea :: "palabra list \<Rightarrow> decimal list" where
  "montos_en_linea linea = List.map_filter (\<lambda>p. normalizar_monto (p_text p)) linea"

definition procesar_linea :: "reconocimiento \<Rightarrow> palabra list \<Rightarrow> error + reconocimiento" where
  \<comment> \<open>one turn of \<open>for linea in lineas\<close>\<close>
  "procesar_linea st linea =
     (let linea_texto = linea_texto_de linea;
          (cols, found_cols) =
            (if estado st = Buscando_columnas
             then detectar_columnas linea_texto linea MAPEO_COLUMNAS (columnas st, False)
             else (columnas st, False))
      in if found_cols then Inr (st\<lparr>columnas := cols, estado := Extrayendo_detalles\<rparr>)
         else if py_in ''total'' linea_texto \<and> estado st \<noteq> Buscando_columnas
                 \<and> montos_en_linea linea \<noteq> []
         then Inr (st\<lparr>total_factura := Some (last (montos_en_linea linea)),
                      estado := Buscando_total\<rparr>)
         else if estado st = Extrayendo_detalles \<and> columnas st \<noteq> []
         then (if es_encabezado linea_texto then Inr st
               else (case detalle_de_linea (columnas st) linea of
                       Inl err \<Rightarrow> Inl err
                     | Inr None \<Rightarrow> Inr st
                     | Inr (Some d) \<Rightarrow> Inr (st\<lparr>detalles := detalles st @ [d]\<rparr>)))
         else Inr st)"

fun recorrer :: "reconocimiento \<Rightarrow> palabra list list \<Rightarrow> error + reconocimiento" where
  \<comment> \<open>\<open>for linea in lineas\<close>: an exception that escapes ends the walk\<close>
  "recorrer st [] = Inr st"
| "recorrer st (linea # resto) =
     (case procesar_linea st linea of Inl err \<Rightarrow> Inl err | Inr st' \<Rightarrow> recorrer st' resto)"

definition inicial :: reconocimiento where
  "inicial = \<lparr>detalles = [], total_factura = None, columnas = [], estado = Buscando_columnas\<rparr>"

definition total_calculado :: "detalle list \<Rightarrow> error + decimal" where
  \<comment> \<open>\<open>sum(d['Importe'] for d in detalles) if detalles else Decimal('0')\<close>; \<open>sum\<close> starts at 0\<close>
  "total_calculado ds =
     (if ds \<noteq> [] then py_sum (Fin False 0 0) (map d_importe ds) else Inr (Fin False 0 0))"

definition reconocer_factura ::
  "ocr_word list \<Rightarrow> error + detalle list \<times> decimal option \<times> decimal" where
  \<comment> \<open>from the OCR data on; the assignment to \<open>estado\<close> after the loop is never read\<close>
  "reconocer_factura data =
     (case recorrer inicial (lineas_de data) of
        Inl err \<Rightarrow> Inl err
      | Inr st \<Rightarrow>
          (case total_calculado (detalles st) of
             Inl err \<Rightarrow> Inl err
           | Inr tc \<Rightarrow> Inr (detalles st, total_factura st, tc)))"

section \<open>procesar_lote_facturas: the verdict for one invoice\<close>

record resultado =
  r_total_calculado :: "decimal option"
  r_total_factura :: "decimal option"
  r_coherente :: bool
  r_error :: string

definition procesar_factura :: "ocr_word list \<Rightarrow> error + resultado" where
  \<comment> \<open>the body of the batch loop for an image that could be read; \<open>None\<close> is 'N/A',
      \<open>r_coherente\<close> is the answer written as 'Si' or 'No'; the two-decimal formatting
      of the totals is not modelled\<close>
  "procesar_factura data =
     (case reconocer_factura data of
        Inl err \<Rightarrow> Inl err
      | Inr (ds, tf, tc) \<Rightarrow>
          (case tf of
             None \<Rightarrow> Inr \<lparr>r_total_calculado = None, r_total_factura = None, r_coherente = False,
                          r_error = ''No se extrajeron detalles o total''\<rparr>
           | Some t \<Rightarrow>
               if ds = [] then
                 Inr \<lparr>r_total_calculado = None, r_total_factura = None, r_coherente = False,
                      r_error = ''No se extrajeron detalles o total''\<rparr>
               else (case dec_eq tc t of
                       Inl err \<Rightarrow> Inl err
                     | Inr es_coherente \<Rightarrow>
                         Inr \<lparr>r_total_calculado = Some tc, r_total_factura = Some t,
                              r_coherente = es_coherente, r_error = []\<rparr>)))"

section \<open>LineGrouper as the specification words it\<close>

text \<open>
  The specification's LineGrouper, for comparison with \<open>agrupar\<close>: the sequence is cut
  between two neighbours whose tops differ by 20 pixels or more, and nowhere else.
\<close>

fun cortar :: "palabra list \<Rightarrow> palabra list list" where
  "cortar [] = []"
| "cortar [x] = [[x]]"
| "cortar (x # y # r) =
     (if \<bar>p_top y - p_top x\<bar> < 20
      then (case cortar (y # r) of g # gs \<Rightarrow> (x # g) # gs | [] \<Rightarrow> [[x]])
      else [x] # cortar (y # r))"

section \<open>The writes to columnas\<close>

text \<open>
  The assignments \<open>columnas[nombre_col] = palabra['left']\<close> that the header search makes on
  one line, in the order it makes them: the loops of \<open>detectar_columnas\<close> and
  \<open>detectar_alias\<close> with each assignment recorded instead of applied.
\<close>

fun escrituras_alias ::
  "columna \<Rightarrow> string \<Rightarrow> palabra list \<Rightarrow> string list \<Rightarrow> (columna \<times> int) list" where
  "escrituras_alias nombre_col linea_texto linea [] = []"
| "escrituras_alias nombre_col linea_texto linea (alias # resto) =
     (if py_in alias linea_texto
      then (case primera_palabra alias linea of
              Some palabra \<Rightarrow>
                (nombre_col, p_left palabra) # escrituras_alias nombre_col linea_texto linea resto
            | None \<Rightarrow> escrituras_alias nombre_col linea_texto linea resto)
      else escrituras_alias nombre_col linea_texto linea resto)"

fun escrituras ::
  "string \<Rightarrow> palabra list \<Rightarrow> (columna \<times> string list) list \<Rightarrow> (columna \<times> int) list" where
  "escrituras linea_texto linea [] = []"
| "escrituras linea_texto linea ((nombre_col, alias_list) # resto) =
     escrituras_alias nombre_col linea_texto linea alias_list
     @ escrituras linea_texto linea resto"

definition escribir :: "(columna \<times> int) list \<Rightarrow> (columna \<times> int) list \<Rightarrow> (columna \<times> int) list" where
  \<comment> \<open>a dict after a sequence of assignments\<close>
  "escribir cols ws = foldl (\<lambda>d (k, v). AList.update k v d) cols ws"

fun orden :: "columna \<Rightarrow> nat" where
  \<comment> \<open>the place of a column in \<open>MAPEO_COLUMNAS\<close>\<close>
  "orden Cant = 0"
| "orden Descripcion = 1"
| "orden P_Unit = 2"
| "orden Importe = 3"

section \<open>Example documents\<close>

definition ocr :: "string \<Rightarrow> int \<Rightarrow> int \<Rightarrow> int \<Rightarrow> ocr_word" where
  \<comment> \<open>a recognised word: text, confidence, left, top (the box is 40 by 12)\<close>
  "ocr t c l tp = \<lparr>o_text = t, o_conf = c, o_left = l, o_top = tp, o_width = 40, o_height = 12\<rparr>"

definition pal :: "string \<Rightarrow> int \<Rightarrow> int \<Rightarrow> palabra" where
  "pal t l tp = \<lparr>p_text = t, p_left = l, p_top = tp, p_width = 40, p_height = 12\<rparr>"

definition datos_dos_lineas :: "ocr_word list" where
  \<comment> \<open>two lines out of reading order, and a word of confidence 55\<close>
  "datos_dos_lineas =
     [ocr ''21,00'' 90 400 30, ocr ''Cant'' 95 10 0, ocr ''ruido'' 55 200 15,
      ocr ''Tornillo'' 90 105 29, ocr ''Importe'' 96 400 1]"

definition linea_encabezado :: "palabra list" where
  \<comment> \<open>Scenario A: the four header words\<close>
  "linea_encabezado =
     [pal ''Cant'' 10 0, pal (''Descripci'' @ [CHR 0xF3] @ ''n'') 100 0, pal ''P.Unit'' 300 0,
      pal ''Importe'' 400 0]"

definition linea_tornillo :: "int \<Rightarrow> palabra list" where
  \<comment> \<open>Scenario B: a detail line, at height \<open>y\<close>\<close>
  "linea_tornillo y =
     [pal ''2'' 12 y, pal ''Tornillo'' 105 y, pal ''10,50'' 300 y, pal ''21,00'' 400 y]"

definition linea_total :: "int \<Rightarrow> palabra list" where
  \<comment> \<open>Scenario C: a total line, at height \<open>y\<close>\<close>
  "linea_total y = [pal ''Total'' 300 y, pal ''21,00'' 400 y]"

definition columnas_ejemplo :: "(columna \<times> int) list" where
  "columnas_ejemplo = [(Cant, 10), (Descripcion, 100), (P_Unit, 300), (Importe, 400)]"

definition detalle_tornillo :: detalle where
  "detalle_tornillo =
     \<lparr>d_cant = 2, d_descripcion = ''Tornillo'', d_punit = Some (Fin False 1050 (- 2)),
      d_importe = Fin False 2100 (- 2)\<rparr>"

definition tras_encabezado :: reconocimiento where
  "tras_encabezado =
     \<lparr>detalles = [], total_factura = None, columnas = columnas_ejemplo,
      estado = Extrayendo_detalles\<rparr>"

definition tras_detalle :: reconocimiento where
  "tras_detalle =
     \<lparr>detalles = [detalle_tornillo], total_factura = None, columnas = columnas_ejemplo,
      estado = Extrayendo_detalles\<rparr>"

definition tras_total_solo :: reconocimiento where
  \<comment> \<open>after the header and a total line, with no detail line in between\<close>
  "tras_total_solo =
     \<lparr>detalles = [], total_factura = Some (Fin False 2100 (- 2)), columnas = columnas_ejemplo,
      estado = Buscando_total\<rparr>"

definition datos_factura :: "ocr_word list" where
  \<comment> \<open>Scenarios A, B, C: header, one detail line, total line\<close>
  "datos_factura =
     [ocr ''Cant'' 95 10 0, ocr (''Descripci'' @ [CHR 0xF3] @ ''n'') 93 100 0, ocr ''P.Unit'' 91 300 0,
      ocr ''Importe'' 96 400 0,
      ocr ''2'' 88 12 30, ocr ''Tornillo'' 90 105 30, ocr ''10,50'' 92 300 30, ocr ''21,00'' 94 400 30,
      ocr ''Total'' 97 300 60, ocr ''21,00'' 94 400 60]"

definition datos_total_antes :: "ocr_word list" where
  \<comment> \<open>header, total line, and only then the detail line\<close>
  "datos_total_antes =
     [ocr ''Cant'' 95 10 0, ocr (''Descripci'' @ [CHR 0xF3] @ ''n'') 93 100 0, ocr ''P.Unit'' 91 300 0,
      ocr ''Importe'' 96 400 0,
      ocr ''Total'' 97 300 30, ocr ''21,00'' 94 400 30,
      ocr ''2'' 88 12 60, ocr ''Tornillo'' 90 105 60, ocr ''10,50'' 92 300 60, ocr ''21,00'' 94 400 60]"

definition linea_cantidad_qty :: "palabra list" where
  \<comment> \<open>a header line on which two aliases of the column Cant match different words\<close>
  "linea_cantidad_qty = [pal ''Cantidad'' 10 0, pal ''Qty'' 100 0]"

definition palabra_en_medio :: palabra where
  \<comment> \<open>a word as far from the anchor of Cant (10) as from that of Descripcion (100)\<close>
  "palabra_en_medio = pal ''x'' 55 30"

section \<open>Evaluation of the definitions\<close>

lemmas texto_defs =
  py_isspace_def py_strip_def py_lower_chr_def py_lower_def py_replace_def py_in_def
  is_digit_def digit_val_def int_of_digits_def

lemmas monto_defs =
  normalizar_monto_def Decimal_def parse_number_def parse_exp_def texto_defs

section \<open>AmountNormalizer on the literal tokens\<close>

text \<open>
  Claim C1. On the literal tokens, \<open>normalizar_monto\<close> returns exactly:
  "1.234,56" gives 1234.56, "78,90" gives 78.90, "1.234.567,89" gives 1234567.89, and
  "78.90" gives 7890, because every '.' is dropped before ',' becomes the decimal point.
  Each result is given as the Decimal built (sign, coefficient, exponent) and as the
  number it denotes.
\<close>

theorem normalizar_monto_literales:
  "normalizar_monto ''1.234,56'' = Some (Fin False 123456 (- 2))
   \<and> dec_val (Fin False 123456 (- 2)) = 123456 / 100
   \<and> normalizar_monto ''78,90'' = Some (Fin False 7890 (- 2))
   \<and> dec_val (Fin False 7890 (- 2)) = 7890 / 100
   \<and> normalizar_monto ''1.234.567,89'' = Some (Fin False 123456789 (- 2))
   \<and> dec_val (Fin False 123456789 (- 2)) = 123456789 / 100
   \<and> normalizar_monto ''78.90'' = Some (Fin False 7890 0)
   \<and> dec_val (Fin False 7890 0) = 7890"
  by (simp add: monto_defs dec_sint_def)

lemmas lineas_defs =
  lineas_de_def agrupar_lineas_def ordenar_palabras_def ocr_def pal_def Let_def
  less_eq_prod_def

section \<open>WordFilter\<close>

lemma mset_agrupar: "mset (concat (agrupar la rest)) = mset la + mset rest"
  by (induction rest arbitrary: la) (simp_all add: Let_def)

lemma mset_agrupar_lineas: "mset (concat (agrupar_lineas ps)) = mset ps"
  by (cases ps) (simp_all add: agrupar_lineas_def mset_agrupar)

lemma mset_lineas_de: "mset (concat (lineas_de data)) = mset (extraer_palabras data)"
  by (simp add: lineas_de_def mset_agrupar_lineas ordenar_palabras_def)

lemma extraer_palabras_filter:
  "extraer_palabras data =
     map (\<lambda>d. \<lparr>p_text = py_strip (o_text d), p_left = o_left d, p_top = o_top d,
                p_width = o_width d, p_height = o_height d\<rparr>)
       (filter (\<lambda>d. py_strip (o_text d) \<noteq> [] \<and> 60 < o_conf d) data)"
  by (induction data) (simp_all add: Let_def)

lemma extraer_palabras_append:
  "extraer_palabras (xs @ ys) = extraer_palabras xs @ extraer_palabras ys"
  by (simp add: extraer_palabras_filter)

lemma extraer_palabras_idem:
  "extraer_palabras (filter (\<lambda>d. py_strip (o_text d) \<noteq> [] \<and> 60 < o_conf d) data)
   = extraer_palabras data"
  by (simp add: extraer_palabras_filter)

text \<open>
  Claim C9. A recognised word reaches the rest of the pipeline if and only if its trimmed
  text is non-empty and its confidence is strictly greater than 60: the words kept are
  exactly those rows, with the trimmed text; the lines hold exactly the kept words; the
  result of \<open>reconocer_factura\<close> is the same when the other rows are removed beforehand;
  and a row of confidence 55, or of confidence exactly 60, changes nothing wherever it
  stands in the data.
\<close>

theorem filtro_de_palabras:
  "extraer_palabras data =
     map (\<lambda>d. \<lparr>p_text = py_strip (o_text d), p_left = o_left d, p_top = o_top d,
                p_width = o_width d, p_height = o_height d\<rparr>)
       (filter (\<lambda>d. py_strip (o_text d) \<noteq> [] \<and> 60 < o_conf d) data)
   \<and> mset (concat (lineas_de data)) = mset (extraer_palabras data)
   \<and> reconocer_factura (filter (\<lambda>d. py_strip (o_text d) \<noteq> [] \<and> 60 < o_conf d) data)
       = reconocer_factura data
   \<and> reconocer_factura (pre @ [d\<lparr>o_conf := 55\<rparr>] @ post) = reconocer_factura (pre @ post)
   \<and> reconocer_factura (pre @ [d\<lparr>o_conf := 60\<rparr>] @ post) = reconocer_factura (pre @ post)"
proof -
  have a: "lineas_de (filter (\<lambda>d. py_strip (o_text d) \<noteq> [] \<and> 60 < o_conf d) data) = lineas_de data"
    by (simp add: lineas_de_def extraer_palabras_idem)
  have b: "lineas_de (pre @ [d\<lparr>o_conf := c\<rparr>] @ post) = lineas_de (pre @ post)" if "c \<le> 60" for c
    using that by (simp add: lineas_de_def extraer_palabras_append Let_def)
  show ?thesis
    using extraer_palabras_filter [of data] mset_lineas_de [of data] a b [of 55] b [of 60]
    by (simp add: reconocer_factura_def)
qed

section \<open>LineGrouper\<close>

lemma cortar_Cons_shape: "\<exists>g gs. cortar (y # r) = (y # g) # gs"
  by (induction r arbitrary: y) (auto split: list.splits)

lemma concat_cortar: "concat (cortar xs) = xs"
  by (induction xs rule: cortar.induct) (auto split: list.splits)

lemma cortar_nonempty: "g \<in> set (cortar xs) \<Longrightarrow> g \<noteq> []"
proof (induction xs arbitrary: g rule: cortar.induct)
  case (3 x y r)
  obtain h hs where h: "cortar (y # r) = (y # h) # hs"
    using cortar_Cons_shape by blast
  with 3 show ?case by (auto split: if_splits)
qed auto

lemma cortar_snoc_same:
  "cortar la = [la] \<Longrightarrow> \<bar>p_top y - p_top (last la)\<bar> < 20 \<Longrightarrow> cortar (la @ [y]) = [la @ [y]]"
proof (induction la rule: cortar.induct)
  case (3 x x' r)
  obtain h hs where h: "cortar (x' # r) = (x' # h) # hs"
    using cortar_Cons_shape by blast
  from 3 h show ?case by (auto split: if_splits)
qed auto

lemma cortar_append_cut:
  "cortar la = [la] \<Longrightarrow> \<not> \<bar>p_top y - p_top (last la)\<bar> < 20 \<Longrightarrow>
   cortar (la @ y # r) = la # cortar (y # r)"
proof (induction la rule: cortar.induct)
  case (3 x x' r')
  obtain h hs where h: "cortar (x' # r') = (x' # h) # hs"
    using cortar_Cons_shape by blast
  from 3 h show ?case by (auto split: if_splits)
qed auto

lemma agrupar_cortar:
  "cortar la = [la] \<Longrightarrow> agrupar la rest = map (sort_key p_left) (cortar (la @ rest))"
proof (induction rest arbitrary: la)
  case Nil
  then show ?case by simp
next
  case (Cons y r)
  show ?case
  proof (cases "\<bar>p_top y - p_top (last la)\<bar> < 20")
    case True
    have "cortar (la @ [y]) = [la @ [y]]"
      using Cons.prems True by (rule cortar_snoc_same)
    from Cons.IH [OF this] True show ?thesis by simp
  next
    case False
    have "agrupar [y] r = map (sort_key p_left) (cortar ([y] @ r))"
      by (rule Cons.IH) simp
    with False cortar_append_cut [OF Cons.prems False, of r] show ?thesis by simp
  qed
qed

lemma agrupar_lineas_cortar: "agrupar_lineas ps = map (sort_key p_left) (cortar ps)"
  by (cases ps) (simp_all add: agrupar_lineas_def agrupar_cortar)

lemma cortar_separadas:
  "sorted (map p_top xs) \<Longrightarrow>
   sorted_wrt (\<lambda>g h. \<forall>a\<in>set g. \<forall>b\<in>set h. p_top a + 20 \<le> p_top b) (cortar xs)"
proof (induction xs rule: cortar.induct)
  case (3 x y r)
  obtain h hs where h: "cortar (y # r) = (y # h) # hs"
    using cortar_Cons_shape by blast
  have rest: "set (y # r) = set (concat (cortar (y # r)))"
    by (simp only: concat_cortar)
  show ?case
  proof (cases "\<bar>p_top y - p_top x\<bar> < 20")
    case True
    have xy: "p_top x \<le> p_top y" using "3.prems" by simp
    have ih: "sorted_wrt (\<lambda>g h. \<forall>a\<in>set g. \<forall>b\<in>set h. p_top a + 20 \<le> p_top b) ((y # h) # hs)"
      using 3 True h by simp
    have "\<forall>k\<in>set hs. \<forall>b\<in>set k. p_top x + 20 \<le> p_top b"
      using ih xy by fastforce
    with ih True h show ?thesis by simp
  next
    case False
    have "p_top x + 20 \<le> p_top b" if "b \<in> set (y # r)" for b
      using that "3.prems" False by auto
    with 3 False rest show ?thesis by auto
  qed
qed auto

lemma sorted_top_ordenar: "sorted (map p_top (ordenar_palabras ps))"
proof -
  have "sorted (map (\<lambda>x. (p_top x, p_left x)) (ordenar_palabras ps))"
    by (simp add: ordenar_palabras_def)
  then have "sorted_wrt (\<lambda>x y. (p_top x, p_left x) \<le> (p_top y, p_left y)) (ordenar_palabras ps)"
    by (simp add: sorted_wrt_map)
  then have "sorted_wrt (\<lambda>x y. p_top x \<le> p_top y) (ordenar_palabras ps)"
    by (rule sorted_wrt_mono_rel [rotated]) (auto simp: less_eq_prod_def)
  then show ?thesis
    by (simp add: sorted_wrt_map)
qed

lemma cortar_dentro:
  "g \<in> set (cortar xs) \<Longrightarrow> successively (\<lambda>a b. \<bar>p_top b - p_top a\<bar> < 20) g"
proof (induction xs arbitrary: g rule: cortar.induct)
  case (3 x y r)
  obtain h hs where h: "cortar (y # r) = (y # h) # hs"
    using cortar_Cons_shape by blast
  with 3 show ?case by (auto split: if_splits)
qed auto

lemma cortar_entre:
  "successively (\<lambda>g h. \<not> \<bar>p_top (hd h) - p_top (last g)\<bar> < 20) (cortar xs)"
proof (induction xs rule: cortar.induct)
  case (3 x y r)
  obtain h hs where h: "cortar (y # r) = (y # h) # hs"
    using cortar_Cons_shape by blast
  with 3 show ?case by (cases hs) (auto split: if_splits)
qed auto

lemma sort_key_Nil_iff: "sort_key f l = [] \<longleftrightarrow> l = []"
  using length_sort [of f l] by (cases l) auto

lemma lineas_dos_lineas:
  "lineas_de datos_dos_lineas =
     [[pal ''Cant'' 10 0, pal ''Importe'' 400 1], [pal ''Tornillo'' 105 29, pal ''21,00'' 400 30]]"
  by (simp add: datos_dos_lineas_def lineas_defs texto_defs)

text \<open>
  Claim C7. LineGrouper sorts the filtered words by (top, left) ascending (a stable sort,
  so a permutation), then walks the sorted sequence, appending a word to the open line
  exactly when its top differs from the top of the word appended before it by less than
  20, and otherwise closing the line, re-sorted by left, and opening a new one. So the
  lines built by the program are the pieces \<open>cortar\<close> cuts from the sorted sequence, each
  sorted by left: the pieces are non-empty, follow one another in the sequence, differ
  by less than 20 between neighbours inside a piece and by 20 or more across a cut. Every
  line is ordered left to right, and the lines are in top-to-bottom order: each word of
  a later line lies at least 20 below each word of an earlier one.
\<close>

theorem agrupacion_en_lineas:
  "lineas_de data = map (sort_key p_left) (cortar (ordenar_palabras (extraer_palabras data)))
   \<and> sorted (map (\<lambda>x. (p_top x, p_left x)) (ordenar_palabras ps))
   \<and> mset (ordenar_palabras ps) = mset ps
   \<and> concat (cortar xs) = xs
   \<and> (\<forall>g\<in>set (cortar xs). g \<noteq> [] \<and> successively (\<lambda>a b. \<bar>p_top b - p_top a\<bar> < 20) g)
   \<and> successively (\<lambda>g h. \<not> \<bar>p_top (hd h) - p_top (last g)\<bar> < 20) (cortar xs)
   \<and> (\<forall>l\<in>set (lineas_de data). l \<noteq> [] \<and> sorted (map p_left l))
   \<and> sorted_wrt (\<lambda>l m. \<forall>a\<in>set l. \<forall>b\<in>set m. p_top a + 20 \<le> p_top b) (lineas_de data)"
proof -
  let ?ps = "ordenar_palabras (extraer_palabras data)"
  have l: "lineas_de data = map (sort_key p_left) (cortar ?ps)"
    by (simp add: lineas_de_def agrupar_lineas_cortar)
  have ne: "\<forall>l\<in>set (lineas_de data). l \<noteq> [] \<and> sorted (map p_left l)"
    using cortar_nonempty [of _ ?ps] by (auto simp: l sort_key_Nil_iff)
  have "sorted_wrt (\<lambda>g h. \<forall>a\<in>set g. \<forall>b\<in>set h. p_top a + 20 \<le> p_top b) (cortar ?ps)"
    by (rule cortar_separadas) (rule sorted_top_ordenar)
  then have tb: "sorted_wrt (\<lambda>l m. \<forall>a\<in>set l. \<forall>b\<in>set m. p_top a + 20 \<le> p_top b) (lineas_de data)"
    by (simp add: l sorted_wrt_map)
  show ?thesis
    using l ne tb cortar_nonempty [of _ xs] cortar_dentro [of _ xs] cortar_entre [of xs]
    by (simp add: concat_cortar ordenar_palabras_def)
qed

theorem agrupacion_en_lineas_witness:
  "lineas_de datos_dos_lineas =
     [[pal ''Cant'' 10 0, pal ''Importe'' 400 1], [pal ''Tornillo'' 105 29, pal ''21,00'' 400 30]]
   \<and> map (sort_key p_left) (cortar (ordenar_palabras (extraer_palabras datos_dos_lineas))) =
     [[pal ''Cant'' 10 0, pal ''Importe'' 400 1], [pal ''Tornillo'' 105 29, pal ''21,00'' 400 30]]
   \<and> [pal ''Tornillo'' 105 29, pal ''21,00'' 400 30] \<in> set (lineas_de datos_dos_lineas)
   \<and> sorted (map p_left [pal ''Tornillo'' 105 29, pal ''21,00'' 400 30])
   \<and> p_top (pal ''Importe'' 400 1) + 20 \<le> p_top (pal ''Tornillo'' 105 29)"
proof -
  have e: "lineas_de datos_dos_lineas =
           map (sort_key p_left) (cortar (ordenar_palabras (extraer_palabras datos_dos_lineas)))"
    using agrupacion_en_lineas [of datos_dos_lineas "[]" "[]"] by (rule conjunct1)
  have m: "map (sort_key p_left) (cortar (ordenar_palabras (extraer_palabras datos_dos_lineas))) =
           [[pal ''Cant'' 10 0, pal ''Importe'' 400 1], [pal ''Tornillo'' 105 29, pal ''21,00'' 400 30]]"
    by (simp only: e [symmetric] lineas_dos_lineas)
  show ?thesis
    by (simp add: m lineas_dos_lineas pal_def)
qed

section \<open>The example documents, step by step\<close>

lemma lineas_datos_factura:
  "lineas_de datos_factura = [linea_encabezado, linea_tornillo 30, linea_total 60]"
  by (simp add: datos_factura_def linea_encabezado_def linea_tornillo_def linea_total_def
      lineas_defs texto_defs)

lemma lineas_datos_total_antes:
  "lineas_de datos_total_antes = [linea_encabezado, linea_total 30, linea_tornillo 60]"
  by (simp add: datos_total_antes_def linea_encabezado_def linea_tornillo_def linea_total_def
      lineas_defs texto_defs)

lemma paso_encabezado: "procesar_linea inicial linea_encabezado = Inr tras_encabezado"
  by code_simp

lemma paso_tornillo: "procesar_linea tras_encabezado (linea_tornillo 30) = Inr tras_detalle"
  by code_simp

lemma total_en_linea_total: "py_in ''total'' (linea_texto_de (linea_total y))"
  by code_simp

lemma montos_linea_total: "montos_en_linea (linea_total y) = [Fin False 2100 (- 2)]"
  by code_simp

lemma texto_linea_tornillo:
  "\<not> es_encabezado (linea_texto_de (linea_tornillo y))
   \<and> \<not> py_in ''total'' (linea_texto_de (linea_tornillo y))"
  by code_simp

lemma detalle_linea_tornillo:
  "detalle_de_linea columnas_ejemplo (linea_tornillo y) = Inr (Some detalle_tornillo)"
  by code_simp

section \<open>RowClassifier: the total line\<close>

lemma recorrer_append:
  "recorrer st (xs @ ys) =
     (case recorrer st xs of Inl err \<Rightarrow> Inl err | Inr st' \<Rightarrow> recorrer st' ys)"
  by (induction xs arbitrary: st) (auto split: sum.splits)

lemma procesar_linea_total:
  "estado st \<noteq> Buscando_columnas \<Longrightarrow> py_in ''total'' (linea_texto_de linea) \<Longrightarrow>
   montos_en_linea linea \<noteq> [] \<Longrightarrow>
   procesar_linea st linea =
     Inr (st\<lparr>total_factura := Some (last (montos_en_linea linea)), estado := Buscando_total\<rparr>)"
  by (simp add: procesar_linea_def Let_def)

lemma procesar_linea_Buscando_total:
  "estado st = Buscando_total \<Longrightarrow>
   procesar_linea st linea =
     Inr (if py_in ''total'' (linea_texto_de linea) \<and> montos_en_linea linea \<noteq> []
          then st\<lparr>total_factura := Some (last (montos_en_linea linea))\<rparr> else st)"
  by (cases st) (simp add: procesar_linea_def Let_def)

lemma recorrer_Buscando_total:
  "estado st = Buscando_total \<Longrightarrow>
   \<exists>st'. recorrer st lineas = Inr st' \<and> estado st' = Buscando_total
        \<and> detalles st' = detalles st \<and> columnas st' = columnas st
        \<and> (if \<exists>m\<in>set lineas. py_in ''total'' (linea_texto_de m) \<and> montos_en_linea m \<noteq> []
           then \<exists>m\<in>set lineas. total_factura st' = Some (last (montos_en_linea m))
           else total_factura st' = total_factura st)"
proof (induction lineas arbitrary: st)
  case Nil
  then show ?case by simp
next
  case (Cons l ls)
  let ?st1 = "if py_in ''total'' (linea_texto_de l) \<and> montos_en_linea l \<noteq> []
          then st\<lparr>total_factura := Some (last (montos_en_linea l))\<rparr> else st"
  have p: "procesar_linea st l = Inr ?st1"
    using Cons.prems by (rule procesar_linea_Buscando_total)
  have e: "estado ?st1 = Buscando_total" using Cons.prems by simp
  from Cons.IH [OF e] obtain st' where
    r: "recorrer ?st1 ls = Inr st'" "estado st' = Buscando_total"
       "detalles st' = detalles ?st1" "columnas st' = columnas ?st1"
    and t: "if \<exists>m\<in>set ls. py_in ''total'' (linea_texto_de m) \<and> montos_en_linea m \<noteq> []
           then \<exists>m\<in>set ls. total_factura st' = Some (last (montos_en_linea m))
           else total_factura st' = total_factura ?st1"
    by blast
  have "recorrer st (l # ls) = Inr st'" using p r(1) by simp
  moreover have "detalles st' = detalles st" "columnas st' = columnas st"
    using r by (simp_all split: if_splits)
  moreover have "if \<exists>m\<in>set (l # ls). py_in ''total'' (linea_texto_de m) \<and> montos_en_linea m \<noteq> []
           then \<exists>m\<in>set (l # ls). total_factura st' = Some (last (montos_en_linea m))
           else total_factura st' = total_factura st"
    using t by (auto split: if_splits)
  ultimately show ?case using r(2) by blast
qed

lemma recorrer_ultima_total:
  assumes "estado st \<noteq> Buscando_columnas"
    and "py_in ''total'' (linea_texto_de linea)" and "montos_en_linea linea \<noteq> []"
    and "\<forall>m\<in>set resto. \<not> (py_in ''total'' (linea_texto_de m) \<and> montos_en_linea m \<noteq> [])"
  shows "\<exists>st'. recorrer st (linea # resto) = Inr st'
           \<and> total_factura st' = Some (last (montos_en_linea linea))
           \<and> detalles st' = detalles st"
proof -
  let ?st1 = "st\<lparr>total_factura := Some (last (montos_en_linea linea)), estado := Buscando_total\<rparr>"
  have p: "procesar_linea st linea = Inr ?st1"
    using assms(1-3) by (rule procesar_linea_total)
  have "estado ?st1 = Buscando_total" by simp
  from recorrer_Buscando_total [OF this, of resto] assms(4) p
  show ?thesis by auto
qed

lemma montos_en_linea_eq:
  "montos_en_linea linea =
     map (\<lambda>p. the (normalizar_monto (p_text p)))
       (filter (\<lambda>p. normalizar_monto (p_text p) \<noteq> None) linea)"
  by (simp add: montos_en_linea_def List.map_filter_def comp_def)

text \<open>
  Claim C4. Once the header has been consumed (the state is \<open>Extrayendo_detalles\<close> or
  \<open>Buscando_total\<close>), a line whose lower-cased joined text contains "total" has its
  words normalised by \<open>normalizar_monto\<close>; if at least one word parses, the line is
  consumed as a total line: the total is set, whatever it was before, to the last amount
  on the line that parses, the state becomes \<open>Buscando_total\<close> and nothing else changes.
  So the last such line in document order gives the final total: when no later line is
  one, the walk over the remaining lines ends with that total, and \<open>reconocer_factura\<close>
  returns it (unless the sum of the amounts raises).
\<close>

theorem linea_de_total:
  assumes "estado st \<noteq> Buscando_columnas"
    and "py_in ''total'' (linea_texto_de linea)"
    and "montos_en_linea linea \<noteq> []"
  shows
    "montos_en_linea linea =
       map (\<lambda>p. the (normalizar_monto (p_text p)))
         (filter (\<lambda>p. normalizar_monto (p_text p) \<noteq> None) linea)
     \<and> procesar_linea st linea =
         Inr (st\<lparr>total_factura := Some (last (montos_en_linea linea)), estado := Buscando_total\<rparr>)
     \<and> ((\<forall>m\<in>set resto. \<not> (py_in ''total'' (linea_texto_de m) \<and> montos_en_linea m \<noteq> [])) \<longrightarrow>
          (\<exists>st'. recorrer st (linea # resto) = Inr st'
             \<and> total_factura st' = Some (last (montos_en_linea linea))))
     \<and> ((\<forall>m\<in>set resto. \<not> (py_in ''total'' (linea_texto_de m) \<and> montos_en_linea m \<noteq> [])) \<longrightarrow>
          lineas_de data = previas @ linea # resto \<longrightarrow> recorrer inicial previas = Inr st \<longrightarrow>
          reconocer_factura data =
            (case total_calculado (detalles st) of
               Inl err \<Rightarrow> Inl err
             | Inr tc \<Rightarrow> Inr (detalles st, Some (last (montos_en_linea linea)), tc)))"
proof -
  have d: "reconocer_factura data =
            (case total_calculado (detalles st) of
               Inl err \<Rightarrow> Inl err
             | Inr tc \<Rightarrow> Inr (detalles st, Some (last (montos_en_linea linea)), tc))"
    if r: "\<forall>m\<in>set resto. \<not> (py_in ''total'' (linea_texto_de m) \<and> montos_en_linea m \<noteq> [])"
      and l: "lineas_de data = previas @ linea # resto"
      and p: "recorrer inicial previas = Inr st"
  proof -
    from recorrer_ultima_total [OF assms r] obtain st' where
      s: "recorrer st (linea # resto) = Inr st'"
         "total_factura st' = Some (last (montos_en_linea linea))"
         "detalles st' = detalles st"
      by blast
    have "recorrer inicial (lineas_de data) = Inr st'"
      using s(1) p by (simp add: l recorrer_append)
    then show ?thesis
      using s(2,3) by (simp add: reconocer_factura_def split: sum.splits)
  qed
  show ?thesis
    using montos_en_linea_eq [of linea] procesar_linea_total [OF assms]
      recorrer_ultima_total [OF assms, of resto] d
    by blast
qed

theorem linea_de_total_witness:
  "estado tras_detalle \<noteq> Buscando_columnas
   \<and> py_in ''total'' (linea_texto_de (linea_total 60))
   \<and> montos_en_linea (linea_total 60) = [Fin False 2100 (- 2)]
   \<and> lineas_de datos_factura = [linea_encabezado, linea_tornillo 30] @ linea_total 60 # []
   \<and> recorrer inicial [linea_encabezado, linea_tornillo 30] = Inr tras_detalle
   \<and> procesar_linea tras_detalle (linea_total 60) =
       Inr (tras_detalle\<lparr>total_factura := Some (Fin False 2100 (- 2)), estado := Buscando_total\<rparr>)
   \<and> reconocer_factura datos_factura =
       Inr ([detalle_tornillo], Some (Fin False 2100 (- 2)), Fin False 2100 (- 2))"
proof -
  have e: "estado tras_detalle \<noteq> Buscando_columnas"
    by (simp add: tras_detalle_def)
  have m: "montos_en_linea (linea_total 60) \<noteq> []"
    by (simp add: montos_linea_total)
  have l: "lineas_de datos_factura = [linea_encabezado, linea_tornillo 30] @ linea_total 60 # []"
    by (simp add: lineas_datos_factura)
  have r: "recorrer inicial [linea_encabezado, linea_tornillo 30] = Inr tras_detalle"
    by (simp add: paso_encabezado paso_tornillo)
  have tc: "total_calculado (detalles tras_detalle) = Inr (Fin False 2100 (- 2))"
    by code_simp
  note t = linea_de_total [OF e total_en_linea_total m, of "[]" datos_factura
      "[linea_encabezado, linea_tornillo 30]"]
  have p: "procesar_linea tras_detalle (linea_total 60) =
       Inr (tras_detalle\<lparr>total_factura := Some (Fin False 2100 (- 2)), estado := Buscando_total\<rparr>)"
    using t by (simp add: montos_linea_total)
  have f: "reconocer_factura datos_factura =
       Inr ([detalle_tornillo], Some (Fin False 2100 (- 2)), Fin False 2100 (- 2))"
    using t l r by (simp add: montos_linea_total tc) (simp add: tras_detalle_def)
  show ?thesis
    using e total_en_linea_total [of 60] montos_linea_total [of 60] l r p f by simp
qed

section \<open>RowClassifier: after the total\<close>

lemma paso_total_solo: "procesar_linea tras_encabezado (linea_total 30) = Inr tras_total_solo"
  using procesar_linea_total [of tras_encabezado "linea_total 30"]
  by (simp add: total_en_linea_total montos_linea_total tras_encabezado_def tras_total_solo_def)

text \<open>
  Claim C5, as stated, fails: in state \<open>Buscando_total\<close>, with all four anchors present, the
  detail line of Scenario B contains no alias and no "total", and \<open>detalle_de_linea\<close>
  would build a LineItem from it, yet \<open>procesar_linea\<close> leaves the state as it is. The
  document with header, total line and then that detail line yields no LineItem.
\<close>

theorem detalle_tras_total_contraejemplo:
  "estado tras_total_solo = Buscando_total
   \<and> columnas tras_total_solo = columnas_ejemplo
   \<and> \<not> es_encabezado (linea_texto_de (linea_tornillo 60))
   \<and> \<not> py_in ''total'' (linea_texto_de (linea_tornillo 60))
   \<and> detalle_de_linea (columnas tras_total_solo) (linea_tornillo 60) = Inr (Some detalle_tornillo)
   \<and> procesar_linea tras_encabezado (linea_tornillo 60) =
       Inr (tras_encabezado\<lparr>detalles := [detalle_tornillo]\<rparr>)
   \<and> procesar_linea tras_total_solo (linea_tornillo 60) = Inr tras_total_solo
   \<and> lineas_de datos_total_antes = [linea_encabezado, linea_total 30, linea_tornillo 60]
   \<and> reconocer_factura datos_total_antes = Inr ([], Some (Fin False 2100 (- 2)), Fin False 0 0)"
proof -
  have a: "procesar_linea tras_total_solo (linea_tornillo 60) = Inr tras_total_solo"
    using procesar_linea_Buscando_total [of tras_total_solo "linea_tornillo 60"]
    by (simp add: texto_linea_tornillo) (simp add: tras_total_solo_def)
  have b: "procesar_linea tras_encabezado (linea_tornillo 60) =
       Inr (tras_encabezado\<lparr>detalles := [detalle_tornillo]\<rparr>)"
    by (simp add: procesar_linea_def Let_def texto_linea_tornillo detalle_linea_tornillo
        tras_encabezado_def columnas_ejemplo_def [symmetric])
      (simp add: columnas_ejemplo_def)
  have c: "reconocer_factura datos_total_antes = Inr ([], Some (Fin False 2100 (- 2)), Fin False 0 0)"
    by (simp add: reconocer_factura_def lineas_datos_total_antes paso_encabezado paso_total_solo a
        total_calculado_def)
      (simp add: tras_total_solo_def)
  show ?thesis
    using a b c texto_linea_tornillo [of 60] detalle_linea_tornillo [of 60]
      lineas_datos_total_antes
    by (simp add: tras_total_solo_def)
qed

text \<open>
  Claim C5, amended. In state \<open>Buscando_total\<close> (a total line has been consumed) no line
  is forwarded to DetailAssigner: every later line leaves the LineItems, the anchors
  and the state as they are, and at most overwrites the total when it is itself a total
  line; so the walk over any remaining lines ends with the same LineItems. Detail lines
  yield LineItems only in state \<open>Extrayendo_detalles\<close>.
\<close>

theorem sin_detalles_tras_total:
  assumes "estado st = Buscando_total"
  shows
    "procesar_linea st linea =
       Inr (if py_in ''total'' (linea_texto_de linea) \<and> montos_en_linea linea \<noteq> []
            then st\<lparr>total_factura := Some (last (montos_en_linea linea))\<rparr> else st)
     \<and> (\<exists>st'. recorrer st lineas = Inr st' \<and> detalles st' = detalles st
           \<and> columnas st' = columnas st \<and> estado st' = Buscando_total)"
  using procesar_linea_Buscando_total [OF assms, of linea]
    recorrer_Buscando_total [OF assms, of lineas]
  by blast

theorem sin_detalles_tras_total_witness:
  "estado tras_total_solo = Buscando_total
   \<and> procesar_linea tras_total_solo (linea_tornillo 60) = Inr tras_total_solo
   \<and> (\<exists>st'. recorrer tras_total_solo [linea_tornillo 60, linea_tornillo 90] = Inr st'
         \<and> detalles st' = [] \<and> columnas st' = columnas_ejemplo \<and> estado st' = Buscando_total)"
proof -
  have e: "estado tras_total_solo = Buscando_total"
    by (simp add: tras_total_solo_def)
  note t = sin_detalles_tras_total [OF e, of "linea_tornillo 60"
      "[linea_tornillo 60, linea_tornillo 90]"]
  have d: "detalles tras_total_solo = []" "columnas tras_total_solo = columnas_ejemplo"
    by (simp_all add: tras_total_solo_def)
  have p: "procesar_linea tras_total_solo (linea_tornillo 60) = Inr tras_total_solo"
    using t texto_linea_tornillo [of 60] by simp
  from t have "\<exists>st'. recorrer tras_total_solo [linea_tornillo 60, linea_tornillo 90] = Inr st'
         \<and> detalles st' = [] \<and> columnas st' = columnas_ejemplo \<and> estado st' = Buscando_total"
    unfolding d by (rule conjunct2)
  with e p show ?thesis by (intro conjI)
qed

section \<open>ColumnDetector: the anchors\<close>

lemma escribir_snoc: "escribir cols (ws @ [(k, v)]) = AList.update k v (escribir cols ws)"
  by (simp add: escribir_def)

lemma escribir_append: "escribir cols (ws @ vs) = escribir (escribir cols ws) vs"
  by (simp add: escribir_def)

lemma detectar_alias_escrituras:
  "detectar_alias c lt linea als (cols, f) =
     (escribir cols (escrituras_alias c lt linea als), f \<or> escrituras_alias c lt linea als \<noteq> [])"
proof (induction als arbitrary: cols f)
  case Nil
  show ?case by (simp add: escribir_def)
next
  case (Cons a als)
  show ?case
    by (auto simp: Cons.IH escribir_def split: option.splits)
qed

lemma detectar_columnas_escrituras:
  "detectar_columnas lt linea M (cols, f) =
     (escribir cols (escrituras lt linea M), f \<or> escrituras lt linea M \<noteq> [])"
proof (induction M arbitrary: cols f)
  case Nil
  show ?case by (simp add: escribir_def)
next
  case (Cons m M)
  obtain c als where m: "m = (c, als)" by (cases m)
  show ?case
    by (auto simp: m Cons.IH detectar_alias_escrituras escribir_append)
qed

lemma map_of_escribir:
  "map_of (escribir cols ws) c =
     (case filter (\<lambda>kv. fst kv = c) ws of [] \<Rightarrow> map_of cols c | x # xs \<Rightarrow> Some (snd (last (x # xs))))"
proof (induction ws rule: rev_induct)
  case Nil
  show ?case by (simp add: escribir_def)
next
  case (snoc w ws)
  obtain k v where w: "w = (k, v)" by (cases w)
  show ?case
    using snoc.IH
    by (auto simp: w escribir_snoc update_conv' split: list.splits)
qed

lemma procesar_linea_Buscando_columnas:
  "estado st = Buscando_columnas \<Longrightarrow>
   procesar_linea st linea =
     Inr (if escrituras (linea_texto_de linea) linea MAPEO_COLUMNAS = [] then st
          else st\<lparr>columnas := escribir (columnas st) (escrituras (linea_texto_de linea) linea MAPEO_COLUMNAS),
                  estado := Extrayendo_detalles\<rparr>)"
  by (simp add: procesar_linea_def Let_def detectar_columnas_escrituras)

lemma procesar_linea_columnas:
  "estado st \<noteq> Buscando_columnas \<Longrightarrow> procesar_linea st linea = Inr st' \<Longrightarrow>
   columnas st' = columnas st \<and> estado st' \<noteq> Buscando_columnas"
  by (auto simp: procesar_linea_def Let_def split: if_splits sum.splits option.splits)

lemma recorrer_columnas:
  "estado st \<noteq> Buscando_columnas \<Longrightarrow> recorrer st lineas = Inr st' \<Longrightarrow>
   columnas st' = columnas st \<and> estado st' \<noteq> Buscando_columnas"
proof (induction lineas arbitrary: st)
  case Nil
  then show ?case by simp
next
  case (Cons l ls)
  from Cons.prems(2) obtain s1 where s1: "procesar_linea st l = Inr s1" "recorrer s1 ls = Inr st'"
    by (auto split: sum.splits)
  from procesar_linea_columnas [OF Cons.prems(1) s1(1)] Cons.IH [OF _ s1(2)]
  show ?case by simp
qed

lemma recorrer_Buscando_columnas:
  "recorrer inicial lineas = Inr st \<Longrightarrow> estado st = Buscando_columnas \<Longrightarrow> st = inicial"
proof (induction lineas arbitrary: st rule: rev_induct)
  case Nil
  then show ?case by simp
next
  case (snoc l ls)
  from snoc.prems(1) obtain s1 where s1: "recorrer inicial ls = Inr s1" "procesar_linea s1 l = Inr st"
    by (auto simp: recorrer_append split: sum.splits)
  have "estado s1 = Buscando_columnas"
    using procesar_linea_columnas [OF _ s1(2)] snoc.prems(2) by blast
  with snoc.IH [OF s1(1)] have "s1 = inicial" by simp
  with s1(2) snoc.prems(2) show ?case
    by (auto simp: procesar_linea_Buscando_columnas inicial_def split: if_splits)
qed

lemma escrituras_alias_iff:
  "(k, v) \<in> set (escrituras_alias c lt linea als) \<longleftrightarrow>
     k = c \<and> (\<exists>alias\<in>set als. py_in alias lt \<and>
                (\<exists>p. primera_palabra alias linea = Some p \<and> v = p_left p))"
  by (induction als) (auto split: option.splits)

lemma escrituras_iff:
  "(k, v) \<in> set (escrituras lt linea M) \<longleftrightarrow>
     (\<exists>als alias p. (k, als) \<in> set M \<and> alias \<in> set als \<and> py_in alias lt
        \<and> primera_palabra alias linea = Some p \<and> v = p_left p)"
proof (induction M)
  case Nil
  show ?case by simp
next
  case (Cons m M)
  obtain c als where m: "m = (c, als)" by (cases m)
  show ?case
    unfolding m by (simp add: Cons.IH escrituras_alias_iff) blast
qed


lemma escrituras_cantidad_qty:
  "escrituras (linea_texto_de linea_cantidad_qty) linea_cantidad_qty MAPEO_COLUMNAS
   = [(Cant, 10), (Cant, 10), (Cant, 100)]"
  by code_simp

lemma primeras_cantidad_qty:
  "primera_palabra ''cant'' linea_cantidad_qty = Some (pal ''Cantidad'' 10 0)
   \<and> primera_palabra ''qty'' linea_cantidad_qty = Some (pal ''Qty'' 100 0)"
  by code_simp

text \<open>
  Claim C2, as stated, fails: nothing guards the assignment to \<open>columnas\<close>, so on the
  header line every alias of a column that matches writes the anchor again. On the line
  "Cantidad Qty" the column Cant is written three times (by the aliases "cant",
  "cantidad" and "qty"); the first word that matches stands at 10, and the anchor kept
  is 100, the left coordinate of the word matching the last alias.
\<close>

theorem ancla_sobrescrita_contraejemplo:
  "escrituras (linea_texto_de linea_cantidad_qty) linea_cantidad_qty MAPEO_COLUMNAS
     = [(Cant, 10), (Cant, 10), (Cant, 100)]
   \<and> primera_palabra ''cant'' linea_cantidad_qty = Some (pal ''Cantidad'' 10 0)
   \<and> p_left (pal ''Cantidad'' 10 0) = 10
   \<and> procesar_linea inicial linea_cantidad_qty =
       Inr \<lparr>detalles = [], total_factura = None, columnas = [(Cant, 100)],
            estado = Extrayendo_detalles\<rparr>"
proof -
  have "procesar_linea inicial linea_cantidad_qty =
       Inr \<lparr>detalles = [], total_factura = None, columnas = [(Cant, 100)],
            estado = Extrayendo_detalles\<rparr>"
    by (simp add: procesar_linea_Buscando_columnas escrituras_cantidad_qty inicial_def
        escribir_def)
  then show ?thesis
    using escrituras_cantidad_qty primeras_cantidad_qty by (simp add: pal_def)
qed

text \<open>
  Claim C2, amended. Anchors are written on one line only, the header line: the first
  line on which some alias matches. Until then the state is the initial one, and from
  then on no line changes any anchor. On the header line every alias that occurs in the
  line's text, and in some word of it, writes its column's anchor, to the left
  coordinate of the first word of the line that contains the alias; the writes happen in
  table order, so the anchor a column keeps is the one written by its last matching
  alias.
\<close>

theorem anclas_de_columnas:
  "(estado st = Buscando_columnas \<longrightarrow>
      procesar_linea st linea =
        Inr (if escrituras (linea_texto_de linea) linea MAPEO_COLUMNAS = [] then st
             else st\<lparr>columnas := escribir (columnas st)
                                     (escrituras (linea_texto_de linea) linea MAPEO_COLUMNAS),
                     estado := Extrayendo_detalles\<rparr>))
   \<and> ((k, v) \<in> set (escrituras lt linea MAPEO_COLUMNAS) \<longleftrightarrow>
        (\<exists>als alias p. (k, als) \<in> set MAPEO_COLUMNAS \<and> alias \<in> set als \<and> py_in alias lt
           \<and> primera_palabra alias linea = Some p \<and> v = p_left p))
   \<and> map_of (escribir cols ws) c =
        (case filter (\<lambda>kv. fst kv = c) ws of
           [] \<Rightarrow> map_of cols c
         | x # xs \<Rightarrow> Some (snd (last (x # xs))))
   \<and> (recorrer inicial previas = Inr st \<longrightarrow> estado st = Buscando_columnas \<longrightarrow> st = inicial)
   \<and> (estado st \<noteq> Buscando_columnas \<longrightarrow> recorrer st lineas = Inr st' \<longrightarrow>
        columnas st' = columnas st \<and> estado st' \<noteq> Buscando_columnas)"
  using procesar_linea_Buscando_columnas [of st linea] escrituras_iff [of k v lt linea MAPEO_COLUMNAS]
    map_of_escribir [of cols ws c] recorrer_Buscando_columnas [of previas st]
    recorrer_columnas [of st lineas st']
  by blast

theorem anclas_de_columnas_witness:
  "estado inicial = Buscando_columnas
   \<and> procesar_linea inicial linea_cantidad_qty =
       Inr (inicial\<lparr>columnas := [(Cant, 100)], estado := Extrayendo_detalles\<rparr>)
   \<and> map_of (escribir [] [(Cant, 10), (Cant, 10), (Cant, 100)]) Cant = Some 100
   \<and> recorrer inicial [] = Inr inicial
   \<and> estado tras_encabezado \<noteq> Buscando_columnas
   \<and> recorrer tras_encabezado [linea_tornillo 30] = Inr tras_detalle
   \<and> columnas tras_detalle = columnas tras_encabezado"
proof -
  have e: "estado inicial = Buscando_columnas"
    by (simp add: inicial_def)
  have n: "estado tras_encabezado \<noteq> Buscando_columnas"
    by (simp add: tras_encabezado_def)
  have r: "recorrer tras_encabezado [linea_tornillo 30] = Inr tras_detalle"
    by (simp add: paso_tornillo)
  note t = anclas_de_columnas [where st = inicial and linea = linea_cantidad_qty
      and cols = "[]" and ws = "[(Cant, 10), (Cant, 10), (Cant, 100)]" and c = Cant]
  note u = anclas_de_columnas [where st = tras_encabezado and lineas = "[linea_tornillo 30]"
      and st' = tras_detalle]
  have p: "procesar_linea inicial linea_cantidad_qty =
       Inr (inicial\<lparr>columnas := [(Cant, 100)], estado := Extrayendo_detalles\<rparr>)"
    using t e by (simp add: escrituras_cantidad_qty) (simp add: escribir_def inicial_def)
  have m: "map_of (escribir [] [(Cant, 10), (Cant, 10), (Cant, 100)]) Cant = Some 100"
    using t by simp
  have c: "columnas tras_detalle = columnas tras_encabezado"
    using u n r by blast
  show ?thesis
    using e p m n r c by simp
qed

section \<open>DetailAssigner: the nearest column\<close>

lemma orden_inj: "orden a = orden b \<Longrightarrow> a = b"
  by (cases a; cases b) simp_all

lemma update_orden:
  assumes "sorted_wrt (\<lambda>a b. orden a < orden b) (map fst cols)"
    and "\<forall>a\<in>set (map fst cols). orden a \<le> orden k"
  shows "sorted_wrt (\<lambda>a b. orden a < orden b) (map fst (AList.update k v cols))"
proof (cases "k \<in> set (map fst cols)")
  case True
  with assms(1) show ?thesis by (simp add: update_keys)
next
  case False
  have "orden a < orden k" if "a \<in> set (map fst cols)" for a
  proof -
    have "orden a \<le> orden k" using assms(2) that by blast
    moreover have "a \<noteq> k" using False that by blast
    ultimately show ?thesis using orden_inj [of a k] by (cases "orden a = orden k") auto
  qed
  with assms(1) False show ?thesis
    by (simp add: update_keys sorted_wrt_append)
qed

lemma escribir_orden:
  "sorted (map (\<lambda>w. orden (fst w)) ws) \<Longrightarrow>
   sorted_wrt (\<lambda>a b. orden a < orden b) (map fst (escribir [] ws))
   \<and> fst ` set (escribir [] ws) = fst ` set ws"
proof (induction ws rule: rev_induct)
  case Nil
  show ?case by (simp add: escribir_def)
next
  case (snoc w ws)
  obtain k v where w: "w = (k, v)" by (cases w)
  from snoc.prems have s: "sorted (map (\<lambda>w. orden (fst w)) ws)"
    and le: "\<forall>x\<in>set ws. orden (fst x) \<le> orden k"
    by (auto simp: w sorted_append)
  from snoc.IH [OF s] have ih:
    "sorted_wrt (\<lambda>a b. orden a < orden b) (map fst (escribir [] ws))"
    "fst ` set (escribir [] ws) = fst ` set ws"
    by blast+
  have "\<forall>a\<in>set (map fst (escribir [] ws)). orden a \<le> orden k"
    using le ih(2) by auto
  from update_orden [OF ih(1) this, of v] ih(2) show ?case
    by (simp add: w escribir_snoc dom_update)
qed

lemma escrituras_alias_fst: "x \<in> set (escrituras_alias c lt linea als) \<Longrightarrow> fst x = c"
  using escrituras_alias_iff [of "fst x" "snd x" c lt linea als] by simp

lemma escrituras_alias_sorted:
  "sorted (map (\<lambda>w. orden (fst w)) (escrituras_alias c lt linea als))"
  by (induction als) (auto split: option.splits dest: escrituras_alias_fst)

lemma escrituras_fst: "x \<in> set (escrituras lt linea M) \<Longrightarrow> fst x \<in> fst ` set M"
  using escrituras_iff [of "fst x" "snd x" lt linea M] by force

lemma escrituras_sorted_gen:
  "sorted (map (\<lambda>m. orden (fst m)) M) \<Longrightarrow>
   sorted (map (\<lambda>w. orden (fst w)) (escrituras lt linea M))"
proof (induction M)
  case Nil
  show ?case by simp
next
  case (Cons m M)
  obtain c als where m: "m = (c, als)" by (cases m)
  from Cons.prems have s: "sorted (map (\<lambda>m. orden (fst m)) M)"
    and le: "\<forall>x\<in>set M. orden c \<le> orden (fst x)"
    by (auto simp: m)
  have "orden (fst x) \<le> orden (fst y)"
    if "x \<in> set (escrituras_alias c lt linea als)" "y \<in> set (escrituras lt linea M)" for x y
    using escrituras_alias_fst [OF that(1)] escrituras_fst [OF that(2)] le by auto
  with Cons.IH [OF s] show ?case
    by (simp add: m sorted_append escrituras_alias_sorted)
qed

lemma escrituras_sorted:
  "sorted (map (\<lambda>w. orden (fst w)) (escrituras lt linea MAPEO_COLUMNAS))"
  by (rule escrituras_sorted_gen) (simp add: MAPEO_COLUMNAS_def)

lemma procesar_linea_orden:
  assumes "procesar_linea st linea = Inr st'"
    and "estado st = Buscando_columnas \<longrightarrow> columnas st = []"
    and "sorted_wrt (\<lambda>a b. orden a < orden b) (map fst (columnas st))"
  shows "(estado st' = Buscando_columnas \<longrightarrow> columnas st' = [])
         \<and> sorted_wrt (\<lambda>a b. orden a < orden b) (map fst (columnas st'))"
proof (cases "estado st = Buscando_columnas")
  case True
  with assms(2) have c: "columnas st = []" by simp
  from assms(1) True c escribir_orden [OF escrituras_sorted, of "linea_texto_de linea" linea]
  show ?thesis
    by (auto simp: procesar_linea_Buscando_columnas split: if_splits)
next
  case False
  from procesar_linea_columnas [OF False assms(1)] assms(3) show ?thesis by simp
qed

lemma recorrer_orden_gen:
  "recorrer st lineas = Inr st' \<Longrightarrow>
   estado st = Buscando_columnas \<longrightarrow> columnas st = [] \<Longrightarrow>
   sorted_wrt (\<lambda>a b. orden a < orden b) (map fst (columnas st)) \<Longrightarrow>
   sorted_wrt (\<lambda>a b. orden a < orden b) (map fst (columnas st'))"
proof (induction lineas arbitrary: st)
  case Nil
  then show ?case by simp
next
  case (Cons l ls)
  from Cons.prems(1) obtain s1 where s1: "procesar_linea st l = Inr s1" "recorrer s1 ls = Inr st'"
    by (auto split: sum.splits)
  from procesar_linea_orden [OF s1(1) Cons.prems(2,3)] Cons.IH [OF s1(2)]
  show ?case by blast
qed

lemma recorrer_orden:
  "recorrer inicial lineas = Inr st \<Longrightarrow>
   sorted_wrt (\<lambda>a b. orden a < orden b) (map fst (columnas st))"
  by (rule recorrer_orden_gen [of inicial lineas st]) (simp_all add: inicial_def)

lemma min_desde_primero:
  "\<exists>pre post w. (k, v) # resto = pre @ (min_desde (k, v) resto, w) # post
     \<and> (\<forall>x\<in>set pre. w < snd x) \<and> (\<forall>x\<in>set post. w \<le> snd x)"
proof (induction resto arbitrary: k v)
  case Nil
  show ?case by (intro exI [of _ "[]"]) simp
next
  case (Cons kv rs)
  obtain k' v' where kv: "kv = (k', v')" by (cases kv)
  show ?case
  proof (cases "v' < v")
    case True
    from Cons.IH [of k' v'] obtain pre post w where
      d: "(k', v') # rs = pre @ (min_desde (k', v') rs, w) # post"
         "\<forall>x\<in>set pre. w < snd x" "\<forall>x\<in>set post. w \<le> snd x"
      by blast
    have "(k', v') \<in> set (pre @ (min_desde (k', v') rs, w) # post)"
      unfolding d(1) [symmetric] by simp
    with d(2,3) have "w \<le> v'" by auto
    with True have wv: "w < v" by simp
    have m': "min_desde (k, v) ((k', v') # rs) = min_desde (k', v') rs"
      using True by simp
    have "(k, v) # kv # rs = ((k, v) # pre) @ (min_desde (k, v) (kv # rs), w) # post"
      unfolding kv m' by (simp add: d(1) [symmetric])
    moreover have "\<forall>x\<in>set ((k, v) # pre). w < snd x" using d(2) wv by simp
    ultimately show ?thesis using d(3) by blast
  next
    case False
    from Cons.IH [of k v] obtain pre post w where
      d: "(k, v) # rs = pre @ (min_desde (k, v) rs, w) # post"
         "\<forall>x\<in>set pre. w < snd x" "\<forall>x\<in>set post. w \<le> snd x"
      by blast
    have m: "min_desde (k, v) (kv # rs) = min_desde (k, v) rs"
      using False by (simp add: kv)
    note e0 = d(1) [symmetric]
    show ?thesis
    proof (cases pre)
      case Nil
      have "(k, v) # rs = (min_desde (k, v) rs, w) # post"
        using d(1) unfolding Nil append_Nil .
      then have e: "min_desde (k, v) rs = k" "w = v" "post = rs" by auto
      have a: "(k, v) # kv # rs = [] @ (min_desde (k, v) (kv # rs), w) # (kv # rs)"
        by (simp add: m e)
      have b: "\<forall>x\<in>set (kv # rs). w \<le> snd x"
        using d(3) False by (simp add: e kv)
      show ?thesis
        by (intro exI [of _ "[]"] exI [of _ "kv # rs"] exI [of _ w] conjI, rule a, simp, rule b)
    next
      case (Cons a pre2)
      have "(k, v) # rs = a # (pre2 @ (min_desde (k, v) rs, w) # post)"
        using d(1) unfolding Cons append_Cons .
      then have e: "a = (k, v)" "rs = pre2 @ (min_desde (k, v) rs, w) # post" by auto
      have wv: "w < v" using d(2) Cons e(1) by simp
      have "(k, v) # kv # rs = ((k, v) # kv # pre2) @ (min_desde (k, v) (kv # rs), w) # post"
        unfolding m by (simp add: e(2) [symmetric])
      moreover have "\<forall>x\<in>set ((k, v) # kv # pre2). w < snd x"
        using d(2) Cons wv False by (simp add: kv)
      ultimately show ?thesis using d(3) by blast
    qed
  qed
qed


lemma orden_distinct:
  "sorted_wrt (\<lambda>a b. orden a < orden b) ks \<Longrightarrow> distinct ks"
  by (induction ks) auto

lemma map_fst_distancias: "map fst (distancias cols palabra) = map fst cols"
  by (simp add: distancias_def split_def)

lemma in_distancias:
  "(k, d) \<in> set (distancias cols palabra) \<longleftrightarrow>
     (\<exists>q. (k, q) \<in> set cols \<and> d = \<bar>p_left palabra - q\<bar>)"
  by (auto simp: distancias_def)

lemma columna_cercana_min:
  assumes s: "sorted_wrt (\<lambda>a b. orden a < orden b) (map fst cols)" and ne: "cols \<noteq> []"
  shows "\<exists>c pos. columna_cercana cols palabra = Inr c \<and> map_of cols c = Some pos
      \<and> (\<forall>(k, q)\<in>set cols. \<bar>p_left palabra - pos\<bar> \<le> \<bar>p_left palabra - q\<bar>)
      \<and> (\<forall>(k, q)\<in>set cols. \<bar>p_left palabra - q\<bar> = \<bar>p_left palabra - pos\<bar> \<longrightarrow> orden c \<le> orden k)"
proof -
  let ?d = "distancias cols palabra"
  from ne have "?d \<noteq> []" by (simp add: distancias_def)
  then obtain k0 v0 dr where d0: "?d = (k0, v0) # dr"
    by (cases ?d) auto
  define c where "c = min_desde (k0, v0) dr"
  have cc: "columna_cercana cols palabra = Inr c"
    by (simp add: columna_cercana_def py_min_key_def d0 c_def)
  from min_desde_primero [of k0 v0 dr] obtain pre post w where
    dec: "?d = pre @ (c, w) # post" and
    lo: "\<forall>x\<in>set pre. w < snd x" and hi: "\<forall>x\<in>set post. w \<le> snd x"
    unfolding d0 c_def by blast
  have "(c, w) \<in> set ?d" by (simp add: dec)
  then obtain pos where pos: "(c, pos) \<in> set cols" "w = \<bar>p_left palabra - pos\<bar>"
    by (auto simp: in_distancias)
  have dist: "distinct (map fst cols)"
    using s by (rule orden_distinct)
  have mo: "map_of cols c = Some pos"
    using dist pos(1) by simp
  have minimo: "w \<le> d" if "(k, d) \<in> set ?d" for k d
    using that lo hi unfolding dec by auto
  have keys: "sorted_wrt (\<lambda>a b. orden a < orden b) (map fst pre @ c # map fst post)"
    using s map_fst_distancias [of cols palabra] unfolding dec by simp
  have empate: "orden c \<le> orden k" if "(k, w) \<in> set ?d" for k
  proof -
    from that have "(k, w) \<in> set pre \<or> k = c \<or> (k, w) \<in> set post"
      unfolding dec by auto
    then show ?thesis
    proof (elim disjE)
      assume "(k, w) \<in> set pre"
      with lo show ?thesis by auto
    next
      assume "k = c"
      then show ?thesis by simp
    next
      assume "(k, w) \<in> set post"
      then have "k \<in> set (map fst post)" by force
      with keys show ?thesis by (auto simp: sorted_wrt_append)
    qed
  qed
  have a: "\<forall>(k, q)\<in>set cols. \<bar>p_left palabra - pos\<bar> \<le> \<bar>p_left palabra - q\<bar>"
    using minimo pos(2) by (auto simp: in_distancias)
  have b: "\<forall>(k, q)\<in>set cols. \<bar>p_left palabra - q\<bar> = \<bar>p_left palabra - pos\<bar> \<longrightarrow> orden c \<le> orden k"
  proof (clarify)
    fix k q
    assume "(k, q) \<in> set cols" "\<bar>p_left palabra - q\<bar> = \<bar>p_left palabra - pos\<bar>"
    then have "(k, w) \<in> set ?d" using pos(2) by (auto simp: in_distancias)
    then show "orden c \<le> orden k" by (rule empate)
  qed
  from cc mo a b show ?thesis by blast
qed

lemma columna_cercana_Inr: "cols \<noteq> [] \<Longrightarrow> \<exists>c. columna_cercana cols palabra = Inr c"
  by (cases cols) (auto simp: columna_cercana_def py_min_key_def distancias_def)

lemma asignar_eq:
  "cols \<noteq> [] \<Longrightarrow>
   asignar cols linea dl =
     Inr (map (\<lambda>(k, ts). (k, ts @ map p_text (filter (\<lambda>p. columna_cercana cols p = Inr k) linea))) dl)"
proof (induction linea arbitrary: dl)
  case Nil
  show ?case by (simp add: split_def)
next
  case (Cons p ps)
  from columna_cercana_Inr [OF Cons.prems, of p] obtain c where c: "columna_cercana cols p = Inr c"
    by blast
  show ?case
    by (simp add: c Cons.IH [OF Cons.prems] dict_append_def split_def)
qed


lemma cercana_en_medio: "columna_cercana columnas_ejemplo palabra_en_medio = Inr Cant"
  by code_simp

lemma distancias_en_medio:
  "distancias columnas_ejemplo palabra_en_medio =
     [(Cant, 45), (Descripcion, 45), (P_Unit, 245), (Importe, 345)]"
  by code_simp

lemma asignar_linea_tornillo:
  "asignar columnas_ejemplo (linea_tornillo 30)
     (map (\<lambda>(nombre_col, pos_col). (nombre_col, [])) columnas_ejemplo) =
   Inr [(Cant, [''2'']), (Descripcion, [''Tornillo'']), (P_Unit, [''10,50'']),
        (Importe, [''21,00''])]"
  by code_simp

text \<open>
  Claim C8. In DetailAssigner every word of a detail line goes to the column whose
  anchor is at the least absolute horizontal distance from the word's left coordinate,
  and among anchors at equal least distance to the first in the fixed order Cant,
  Descripcion, P.Unit, Importe (of the columns that have anchors). The anchors are those
  of any state the walk over a document's lines can reach: their keys stand in the dict
  in that fixed order, which is what the scan of \<open>min\<close> follows. The texts a column
  receives are those of the words nearest to it, in the order of the line.
\<close>

theorem columna_mas_cercana:
  assumes "recorrer inicial lineas = Inr st" and "columnas st \<noteq> []"
  shows
    "(\<exists>c pos. columna_cercana (columnas st) palabra = Inr c \<and> map_of (columnas st) c = Some pos
        \<and> (\<forall>(k, q)\<in>set (columnas st). \<bar>p_left palabra - pos\<bar> \<le> \<bar>p_left palabra - q\<bar>)
        \<and> (\<forall>(k, q)\<in>set (columnas st).
              \<bar>p_left palabra - q\<bar> = \<bar>p_left palabra - pos\<bar> \<longrightarrow> orden c \<le> orden k))
     \<and> asignar (columnas st) linea (map (\<lambda>(nombre_col, pos_col). (nombre_col, [])) (columnas st)) =
         Inr (map (\<lambda>(k, q). (k, map p_text (filter (\<lambda>p. columna_cercana (columnas st) p = Inr k) linea)))
                (columnas st))
     \<and> sorted_wrt (\<lambda>a b. orden a < orden b) (map fst (columnas st))"
proof -
  have s: "sorted_wrt (\<lambda>a b. orden a < orden b) (map fst (columnas st))"
    using assms(1) by (rule recorrer_orden)
  have a: "asignar (columnas st) linea (map (\<lambda>(nombre_col, pos_col). (nombre_col, [])) (columnas st)) =
         Inr (map (\<lambda>(k, q). (k, map p_text (filter (\<lambda>p. columna_cercana (columnas st) p = Inr k) linea)))
                (columnas st))"
    by (simp add: asignar_eq [OF assms(2)] split_def comp_def)
  from columna_cercana_min [OF s assms(2), of palabra] a s show ?thesis
    by blast
qed

theorem columna_mas_cercana_witness:
  "recorrer inicial [linea_encabezado] = Inr tras_encabezado
   \<and> columnas tras_encabezado = columnas_ejemplo
   \<and> columna_cercana columnas_ejemplo palabra_en_medio = Inr Cant
   \<and> distancias columnas_ejemplo palabra_en_medio =
       [(Cant, 45), (Descripcion, 45), (P_Unit, 245), (Importe, 345)]
   \<and> map fst columnas_ejemplo = [Cant, Descripcion, P_Unit, Importe]
   \<and> sorted_wrt (\<lambda>a b. orden a < orden b) (map fst columnas_ejemplo)
   \<and> asignar columnas_ejemplo (linea_tornillo 30)
        (map (\<lambda>(nombre_col, pos_col). (nombre_col, [])) columnas_ejemplo) =
      Inr [(Cant, [''2'']), (Descripcion, [''Tornillo'']), (P_Unit, [''10,50'']),
           (Importe, [''21,00''])]"
proof -
  have r: "recorrer inicial [linea_encabezado] = Inr tras_encabezado"
    by (simp add: paso_encabezado)
  have c: "columnas tras_encabezado = columnas_ejemplo"
    by (simp add: tras_encabezado_def)
  have ne: "columnas tras_encabezado \<noteq> []"
    by (simp add: c columnas_ejemplo_def)
  note t = columna_mas_cercana [OF r ne, of palabra_en_medio "linea_tornillo 30"]
  have s: "sorted_wrt (\<lambda>a b. orden a < orden b) (map fst columnas_ejemplo)"
    using t unfolding c by blast
  have k: "map fst columnas_ejemplo = [Cant, Descripcion, P_Unit, Importe]"
    by (simp add: columnas_ejemplo_def)
  show ?thesis
    using r c cercana_en_medio distancias_en_medio k s asignar_linea_tornillo
    by (intro conjI)
qed

end
